theory Spec2Isabelle
  imports Main
begin

section \<open>Data model of the JSON store (database module)\<close>

text \<open>
  Identifiers are the strings produced by \<^verbatim>\<open>uuidv4()\<close>, calendar days are the
  \<^verbatim>\<open>YYYY-MM-DD\<close> strings, and an instant stands for the ISO timestamp string written by
  \<^verbatim>\<open>toISOString()\<close>, read back by \<^verbatim>\<open>new Date(...)\<close> as milliseconds since the epoch.
  The retry counter is a JavaScript number; the model covers its integer values (the
  \<^verbatim>\<open>NaN\<close> that \<^verbatim>\<open>parseInt\<close> yields on a non-numeric field is outside the model).
\<close>

type_synonym ident = string
type_synonym day = string
type_synonym instant = int

datatype status = PENDING | SNOOZED | TAKEN | MISSED

record user =
  u_id :: ident
  line_user_id :: ident
  display_name :: "string option"
  u_created_at :: instant

record schedule =
  s_id :: ident
  s_user_id :: ident
  meal_type :: string
  default_time :: string
  medicines :: "string list"
  is_second_dose :: bool
  linked_schedule_id :: "ident option"
  link_delay_minutes :: nat
  s_created_at :: instant

record medlog =
  l_id :: ident
  schedule_id :: ident
  user_id :: ident
  date :: day
  status :: status
  retry_count :: int
  last_reminded_at :: "instant option"
  taken_at :: "instant option"
  created_at :: instant

text \<open>The in-memory cache \<^verbatim>\<open>data\<close>: three arrays, in insertion order.\<close>

record database =
  users :: "user list"
  schedules :: "schedule list"
  medicationLogs :: "medlog list"

definition emptyData :: database where
  "emptyData = \<lparr>users = [], schedules = [], medicationLogs = []\<rparr>"

text \<open>The third argument of \<^verbatim>\<open>updateMedicationLogStatus\<close>: every key may be missing.\<close>

record additionalData =
  takenAt :: "instant option"
  retryCount :: "int option"
  lastRemindedAt :: "instant option"

definition noData :: additionalData where
  "noData = \<lparr>takenAt = None, retryCount = None, lastRemindedAt = None\<rparr>"

text \<open>\<^verbatim>\<open>Array.prototype.findIndex\<close>, with \<open>None\<close> for the result \<^verbatim>\<open>-1\<close>.\<close>

fun findIndex :: "('a \<Rightarrow> bool) \<Rightarrow> 'a list \<Rightarrow> nat option" where
  "findIndex P [] = None"
| "findIndex P (x # xs) =
     (if P x then Some 0 else map_option Suc (findIndex P xs))"

definition getUserByLineId :: "database \<Rightarrow> ident \<Rightarrow> user option" where
  "getUserByLineId db lineUserId = find (\<lambda>u. line_user_id u = lineUserId) (users db)"

definition getAllUsers :: "database \<Rightarrow> user list" where
  "getAllUsers db = users db"

definition getScheduleById :: "database \<Rightarrow> ident \<Rightarrow> schedule option" where
  "getScheduleById db scheduleId = find (\<lambda>s. s_id s = scheduleId) (schedules db)"

definition getSchedulesByUserId :: "database \<Rightarrow> ident \<Rightarrow> schedule list" where
  "getSchedulesByUserId db userId = filter (\<lambda>s. s_user_id s = userId) (schedules db)"

definition getMedicationLogById :: "database \<Rightarrow> ident \<Rightarrow> medlog option" where
  "getMedicationLogById db logId = find (\<lambda>l. l_id l = logId) (medicationLogs db)"

definition getMedicationLogByScheduleAndDate :: "database \<Rightarrow> ident \<Rightarrow> day \<Rightarrow> medlog option" where
  "getMedicationLogByScheduleAndDate db scheduleId d =
     find (\<lambda>l. schedule_id l = scheduleId \<and> date l = d) (medicationLogs db)"

text \<open>
  The body of \<^verbatim>\<open>updateMedicationLogStatus\<close> after the record has been located: the
  status is always overwritten, \<^verbatim>\<open>taken_at\<close> only for status \<^verbatim>\<open>TAKEN\<close> with a
  \<^verbatim>\<open>takenAt\<close>, the counter whenever \<^verbatim>\<open>retryCount\<close> is not \<^verbatim>\<open>undefined\<close>, and
  \<^verbatim>\<open>last_reminded_at\<close> when \<^verbatim>\<open>lastRemindedAt\<close> is given.
\<close>

definition applyUpdate :: "status \<Rightarrow> additionalData \<Rightarrow> medlog \<Rightarrow> medlog" where
  "applyUpdate st ad log =
     (let log1 = log\<lparr>status := st\<rparr>;
          log2 = (if st = TAKEN
                  then (case takenAt ad of Some t \<Rightarrow> log1\<lparr>taken_at := Some t\<rparr> | None \<Rightarrow> log1)
                  else log1);
          log3 = (case retryCount ad of Some r \<Rightarrow> log2\<lparr>retry_count := r\<rparr> | None \<Rightarrow> log2)
      in (case lastRemindedAt ad of Some t \<Rightarrow> log3\<lparr>last_reminded_at := Some t\<rparr> | None \<Rightarrow> log3))"

definition updateMedicationLogStatus ::
  "ident \<Rightarrow> status \<Rightarrow> additionalData \<Rightarrow> database \<Rightarrow> medlog option \<times> database" where
  "updateMedicationLogStatus logId st ad db =
     (case findIndex (\<lambda>l. l_id l = logId) (medicationLogs db) of
        None \<Rightarrow> (None, db)
      | Some logIndex \<Rightarrow>
          (let log = applyUpdate st ad (medicationLogs db ! logIndex)
           in (Some log, db\<lparr>medicationLogs := (medicationLogs db)[logIndex := log]\<rparr>)))"

section \<open>Clock, identifiers and the creating operations of the store\<close>

text \<open>
  The readings an operation takes from the clock when it runs: \<^verbatim>\<open>new Date()\<close> and the date part
  of its ISO string, and \<^verbatim>\<open>getTaiwanTime()\<close> with the date string and the \<^verbatim>\<open>HH:MM\<close>
  string derived from it. One record is one invocation: every reading inside it is the same.
\<close>

record clock =
  nowUtc :: instant
  utcDate :: day
  taiwanNow :: instant
  taiwanDate :: day
  taiwanHHMM :: string

text \<open>
  \<^verbatim>\<open>uuidv4()\<close> is an external source: \<open>uuid k\<close> is the value of its \<open>k\<close>-th call since the
  process started, and the world counts the calls made so far next to the cache.
\<close>

record world =
  data :: database
  uuidCalls :: nat

definition createUser ::
  "(nat \<Rightarrow> ident) \<Rightarrow> clock \<Rightarrow> ident \<Rightarrow> string option \<Rightarrow> world \<Rightarrow> user \<times> world" where
  "createUser uuid clk lineUserId displayName w =
     (case find (\<lambda>u. line_user_id u = lineUserId) (users (data w)) of
        Some existingUser \<Rightarrow> (existingUser, w)
      | None \<Rightarrow>
          (let usr = \<lparr>u_id = uuid (uuidCalls w), line_user_id = lineUserId,
                      display_name = displayName, u_created_at = nowUtc clk\<rparr>
           in (usr, \<lparr>data = (data w)\<lparr>users := users (data w) @ [usr]\<rparr>,
                     uuidCalls = uuidCalls w + 1\<rparr>)))"

record scheduleOptions =
  isSecondDose :: bool
  linkedScheduleId :: "ident option"
  linkDelayMinutes :: "nat option"

definition noOptions :: scheduleOptions where
  "noOptions = \<lparr>isSecondDose = False, linkedScheduleId = None, linkDelayMinutes = None\<rparr>"

definition createSchedule ::
  "(nat \<Rightarrow> ident) \<Rightarrow> clock \<Rightarrow> ident \<Rightarrow> string \<Rightarrow> string \<Rightarrow> string list \<Rightarrow> scheduleOptions
     \<Rightarrow> world \<Rightarrow> schedule \<times> world" where
  "createSchedule uuid clk userId mealType defaultTime meds opts w =
     (let sched = \<lparr>s_id = uuid (uuidCalls w), s_user_id = userId, meal_type = mealType,
                    default_time = defaultTime, medicines = meds,
                    is_second_dose = isSecondDose opts,
                    linked_schedule_id =
                      (case linkedScheduleId opts of
                         None \<Rightarrow> None
                       | Some i \<Rightarrow> if i = [] then None else Some i),
                    link_delay_minutes =
                      (case linkDelayMinutes opts of
                         None \<Rightarrow> 60
                       | Some n \<Rightarrow> if n = 0 then 60 else n),
                    s_created_at = nowUtc clk\<rparr>
      in (sched, \<lparr>data = (data w)\<lparr>schedules := schedules (data w) @ [sched]\<rparr>,
                  uuidCalls = uuidCalls w + 1\<rparr>))"

definition createMedicationLog ::
  "(nat \<Rightarrow> ident) \<Rightarrow> clock \<Rightarrow> ident \<Rightarrow> ident \<Rightarrow> day \<Rightarrow> world \<Rightarrow> medlog \<times> world" where
  "createMedicationLog uuid clk scheduleId userId d w =
     (case find (\<lambda>l. schedule_id l = scheduleId \<and> date l = d) (medicationLogs (data w)) of
        Some existingLog \<Rightarrow> (existingLog, w)
      | None \<Rightarrow>
          (let log = \<lparr>l_id = uuid (uuidCalls w), schedule_id = scheduleId, user_id = userId,
                      date = d, status = PENDING, retry_count = 0, last_reminded_at = None,
                      taken_at = None, created_at = nowUtc clk\<rparr>
           in (log, \<lparr>data = (data w)\<lparr>medicationLogs := medicationLogs (data w) @ [log]\<rparr>,
                     uuidCalls = uuidCalls w + 1\<rparr>)))"

text \<open>
  The meal labels and drug names are UTF-8 strings in the source, used only through
  equality; each is written here as an ASCII transliteration, and distinct labels stay distinct.
\<close>

definition mealBreakfastWestern :: string where
  "mealBreakfastWestern = ''after breakfast (western)''"

definition mealBreakfastHerbal :: string where
  "mealBreakfastHerbal = ''after breakfast (herbal)''"

definition mealLunch :: string where
  "mealLunch = ''after lunch''"

definition mealDinner :: string where
  "mealDinner = ''after dinner''"

definition drugWestern :: string where
  "drugWestern = ''hypertension (western)''"

definition drugHerbal :: string where
  "drugHerbal = ''hypertension (herbal)''"

text \<open>
  \<^verbatim>\<open>setupDefaultSchedules\<close>: the existing schedules are read and not used, four schedules
  are created, and a record for the current UTC date is found or created for each.
\<close>

definition setupDefaultSchedules :: "(nat \<Rightarrow> ident) \<Rightarrow> clock \<Rightarrow> ident \<Rightarrow> world \<Rightarrow> world" where
  "setupDefaultSchedules uuid clk userId w =
     (case createSchedule uuid clk userId mealBreakfastWestern ''08:00'' [drugWestern]
             \<lparr>isSecondDose = False, linkedScheduleId = None, linkDelayMinutes = Some 60\<rparr> w of
        (breakfastFirst, w1) \<Rightarrow>
     (case createSchedule uuid clk userId mealBreakfastHerbal ''09:00'' [drugHerbal]
             \<lparr>isSecondDose = True, linkedScheduleId = Some (s_id breakfastFirst),
              linkDelayMinutes = Some 60\<rparr> w1 of
        (breakfastSecond, w2) \<Rightarrow>
     (case createSchedule uuid clk userId mealLunch ''13:00'' [drugHerbal] noOptions w2 of
        (lunchSchedule, w3) \<Rightarrow>
     (case createSchedule uuid clk userId mealDinner ''19:00'' [drugHerbal] noOptions w3 of
        (dinnerSchedule, w4) \<Rightarrow>
     (case createMedicationLog uuid clk (s_id breakfastFirst) userId (utcDate clk) w4 of
        (log1, w5) \<Rightarrow>
     (case createMedicationLog uuid clk (s_id breakfastSecond) userId (utcDate clk) w5 of
        (log2, w6) \<Rightarrow>
     (case createMedicationLog uuid clk (s_id lunchSchedule) userId (utcDate clk) w6 of
        (log3, w7) \<Rightarrow>
     (case createMedicationLog uuid clk (s_id dinnerSchedule) userId (utcDate clk) w7 of
        (log4, w8) \<Rightarrow> w8))))))))"

section \<open>Messages and observable effects\<close>

text \<open>
  What is pushed to a user: the Flex reminder with the fields of \<^verbatim>\<open>scheduleInfo\<close>
  (meal label, drugs, schedule id, retry count, second-dose flag), or one of the fixed texts.
\<close>

datatype message =
    FlexReminder string "string list" ident int bool
  | TextRecorded
  | TextHerbalHint
  | TextSnoozed int
  | TextExceeded

text \<open>
  The effects of an operation in program order: a committed \<^verbatim>\<open>updateMedicationLogStatus\<close>
  (which writes the file through \<^verbatim>\<open>saveDatabase\<close>) and a push with its outcome. The bot is
  the outcome of \<^verbatim>\<open>bot.push\<close>; both senders catch a failure and answer \<^verbatim>\<open>false\<close>.
  An operation runs to its end on the store it starts from: what another operation could
  do to the cache while this one awaits a push is outside the model.
\<close>

datatype effect = Saved ident status | Push ident message bool

type_synonym bot = "ident \<Rightarrow> message \<Rightarrow> bool"

definition sendReminderMessage :: "bot \<Rightarrow> ident \<Rightarrow> message \<Rightarrow> effect list" where
  "sendReminderMessage b userId flexMessage = [Push userId flexMessage (b userId flexMessage)]"

definition sendTextMessage :: "bot \<Rightarrow> ident \<Rightarrow> message \<Rightarrow> effect list" where
  "sendTextMessage b userId text = [Push userId text (b userId text)]"

definition commitUpdate ::
  "ident \<Rightarrow> status \<Rightarrow> additionalData \<Rightarrow> database \<Rightarrow> database \<times> effect list" where
  "commitUpdate logId st ad db =
     (case updateMedicationLogStatus logId st ad db of
        (None, db') \<Rightarrow> (db', [])
      | (Some log, db') \<Rightarrow> (db', [Saved logId st]))"

text \<open>A \<^verbatim>\<open>for ... of\<close> loop whose body changes the state and adds to the effects.\<close>

fun forEach :: "('a \<Rightarrow> 's \<Rightarrow> 's \<times> effect list) \<Rightarrow> 'a list \<Rightarrow> 's \<Rightarrow> 's \<times> effect list" where
  "forEach body [] s = (s, [])"
| "forEach body (x # xs) s =
     (case body x s of (s1, e1) \<Rightarrow>
        (case forEach body xs s1 of (s2, e2) \<Rightarrow> (s2, e1 @ e2)))"

section \<open>Scheduler with one cron job per reminder (sendReminderForMealType)\<close>

text \<open>The body of the loop over the users in \<^verbatim>\<open>sendReminderForMealType\<close>.\<close>

definition remindUser :: "bot \<Rightarrow> clock \<Rightarrow> string \<Rightarrow> user \<Rightarrow> database \<Rightarrow> database \<times> effect list" where
  "remindUser b clk mealType usr db =
     (case find (\<lambda>s. meal_type s = mealType) (getSchedulesByUserId db (u_id usr)) of
        None \<Rightarrow> (db, [])
      | Some sched \<Rightarrow>
          (case getMedicationLogByScheduleAndDate db (s_id sched) (taiwanDate clk) of
             None \<Rightarrow> (db, [])
           | Some log \<Rightarrow>
               if status log = TAKEN then (db, [])
               else if status log = MISSED then (db, [])
               else if retry_count log \<ge> 3 then
                 (if status log \<noteq> MISSED then
                    (case commitUpdate (l_id log) MISSED
                            (noData\<lparr>lastRemindedAt := Some (nowUtc clk)\<rparr>) db of
                       (db1, e1) \<Rightarrow>
                         (db1, e1 @ sendTextMessage b (line_user_id usr) TextExceeded))
                  else (db, []))
               else
                 (let e1 = sendReminderMessage b (line_user_id usr)
                             (FlexReminder (meal_type sched) (medicines sched) (s_id sched)
                                (retry_count log) (is_second_dose sched))
                  in (case commitUpdate (l_id log) SNOOZED
                            \<lparr>takenAt = None, retryCount = Some (retry_count log + 1),
                             lastRemindedAt = Some (nowUtc clk)\<rparr> db of
                        (db1, e2) \<Rightarrow> (db1, e1 @ e2)))))"

definition sendReminderForMealType ::
  "bot \<Rightarrow> clock \<Rightarrow> string \<Rightarrow> database \<Rightarrow> database \<times> effect list" where
  "sendReminderForMealType b clk mealType db =
     (if getAllUsers db = [] then (db, [])
      else forEach (remindUser b clk mealType) (getAllUsers db) db)"

text \<open>A run of evaluations for one meal label, each with its own bot outcome and clock.\<close>

definition evaluations ::
  "(bot \<times> clock) list \<Rightarrow> string \<Rightarrow> database \<Rightarrow> database \<times> effect list" where
  "evaluations envs mealType db =
     forEach (\<lambda>env. sendReminderForMealType (fst env) (snd env) mealType) envs db"

text \<open>\<^verbatim>\<open>initDailySchedule\<close>: a record for today for every schedule of every user.\<close>

definition initSchedule ::
  "(nat \<Rightarrow> ident) \<Rightarrow> clock \<Rightarrow> user \<Rightarrow> schedule \<Rightarrow> world \<Rightarrow> world \<times> effect list" where
  "initSchedule uuid clk usr sched w =
     (case getMedicationLogByScheduleAndDate (data w) (s_id sched) (taiwanDate clk) of
        Some existingLog \<Rightarrow> (w, [])
      | None \<Rightarrow>
          (snd (createMedicationLog uuid clk (s_id sched) (u_id usr) (taiwanDate clk) w), []))"

definition initDailySchedule :: "(nat \<Rightarrow> ident) \<Rightarrow> clock \<Rightarrow> world \<Rightarrow> world" where
  "initDailySchedule uuid clk w =
     fst (forEach
            (\<lambda>usr w'. forEach (initSchedule uuid clk usr)
                         (getSchedulesByUserId (data w') (u_id usr)) w')
            (getAllUsers (data w)) w)"

section \<open>Webhook handler: postback events\<close>

datatype action = ActionTaken | ActionSnooze | ActionOther

text \<open>
  A postback event after \<^verbatim>\<open>handlePostback\<close> has parsed its data: the acting user and the
  three fields of the button, the retry count being the one the button was rendered with.
\<close>

record postbackEvent =
  sourceUserId :: ident
  action :: action
  scheduleId :: ident
  reportedRetryCount :: int

text \<open>First contact: an unknown user is created and given the default schedules.\<close>

definition registerIfUnknown :: "(nat \<Rightarrow> ident) \<Rightarrow> clock \<Rightarrow> ident \<Rightarrow> world \<Rightarrow> world" where
  "registerIfUnknown uuid clk userId w =
     (case getUserByLineId (data w) userId of
        Some usr \<Rightarrow> w
      | None \<Rightarrow>
          (case createUser uuid clk userId (Some userId) w of
             (usr, w1) \<Rightarrow> setupDefaultSchedules uuid clk (u_id usr) w1))"

definition handleTaken :: "bot \<Rightarrow> clock \<Rightarrow> postbackEvent \<Rightarrow> database \<Rightarrow> database \<times> effect list" where
  "handleTaken b clk ev db =
     (case getMedicationLogByScheduleAndDate db (scheduleId ev) (utcDate clk) of
        None \<Rightarrow> (db, [])
      | Some log \<Rightarrow>
          (case commitUpdate (l_id log) TAKEN
                  \<lparr>takenAt = Some (nowUtc clk), retryCount = Some (reportedRetryCount ev),
                   lastRemindedAt = None\<rparr> db of
             (db1, e1) \<Rightarrow>
               (db1, e1 @ sendTextMessage b (sourceUserId ev) TextRecorded @
                  (case getScheduleById db1 (scheduleId ev) of
                     None \<Rightarrow> []
                   | Some sched \<Rightarrow>
                       if meal_type sched = mealBreakfastWestern
                       then sendTextMessage b (sourceUserId ev) TextHerbalHint
                       else []))))"

definition handleSnooze :: "bot \<Rightarrow> clock \<Rightarrow> postbackEvent \<Rightarrow> database \<Rightarrow> database \<times> effect list" where
  "handleSnooze b clk ev db =
     (case getMedicationLogByScheduleAndDate db (scheduleId ev) (utcDate clk) of
        None \<Rightarrow> (db, [])
      | Some log \<Rightarrow>
          (let newRetryCount = reportedRetryCount ev + 1
           in (case commitUpdate (l_id log) SNOOZED
                     \<lparr>takenAt = None, retryCount = Some newRetryCount,
                      lastRemindedAt = Some (nowUtc clk)\<rparr> db of
                 (db1, e1) \<Rightarrow>
                   if newRetryCount < 3
                   then (db1, e1 @ sendTextMessage b (sourceUserId ev) (TextSnoozed newRetryCount))
                   else
                     (case commitUpdate (l_id log) MISSED
                             \<lparr>takenAt = None, retryCount = Some newRetryCount,
                              lastRemindedAt = Some (nowUtc clk)\<rparr> db1 of
                        (db2, e2) \<Rightarrow>
                          (db2, e1 @ e2 @ sendTextMessage b (sourceUserId ev) TextExceeded)))))"

definition handleWebhookEvent ::
  "(nat \<Rightarrow> ident) \<Rightarrow> bot \<Rightarrow> clock \<Rightarrow> postbackEvent \<Rightarrow> world \<Rightarrow> world \<times> effect list" where
  "handleWebhookEvent uuid b clk ev w =
     (let w1 = registerIfUnknown uuid clk (sourceUserId ev) w;
          (db2, e2) = (if action ev = ActionTaken then handleTaken b clk ev (data w1)
                       else (data w1, []));
          (db3, e3) = (if action ev = ActionSnooze then handleSnooze b clk ev db2
                       else (db2, []))
      in (w1\<lparr>data := db3\<rparr>, e2 @ e3))"

section \<open>Earlier scheduler: one tick per minute and a retry check\<close>

text \<open>
  The first-dose test of \<^verbatim>\<open>checkAndSendReminders\<close>: a second dose with a linked schedule
  whose record for today is missing or not \<^verbatim>\<open>TAKEN\<close>.
\<close>

definition firstDoseOutstanding :: "database \<Rightarrow> day \<Rightarrow> schedule \<Rightarrow> bool" where
  "firstDoseOutstanding db today sched =
     (is_second_dose sched \<and>
      (case linked_schedule_id sched of
         None \<Rightarrow> False
       | Some linked \<Rightarrow>
           linked \<noteq> [] \<and>
           (case getMedicationLogByScheduleAndDate db linked today of
              None \<Rightarrow> True
            | Some firstDoseLog \<Rightarrow> status firstDoseLog \<noteq> TAKEN)))"

definition checkSchedule ::
  "bot \<Rightarrow> clock \<Rightarrow> user \<Rightarrow> schedule \<Rightarrow> database \<Rightarrow> database \<times> effect list" where
  "checkSchedule b clk usr sched db =
     (if default_time sched = taiwanHHMM clk then
        (case getMedicationLogByScheduleAndDate db (s_id sched) (taiwanDate clk) of
           None \<Rightarrow> (db, [])
         | Some log \<Rightarrow>
             if status log = PENDING \<or> status log = SNOOZED then
               (if firstDoseOutstanding db (taiwanDate clk) sched then (db, [])
                else
                  (let e1 = sendReminderMessage b (line_user_id usr)
                              (FlexReminder (meal_type sched) (medicines sched) (s_id sched)
                                 (retry_count log) (is_second_dose sched))
                   in (case commitUpdate (l_id log) (status log)
                             (noData\<lparr>lastRemindedAt := Some (taiwanNow clk)\<rparr>) db of
                         (db1, e2) \<Rightarrow> (db1, e1 @ e2))))
             else (db, []))
      else (db, []))"

definition checkAndSendReminders :: "bot \<Rightarrow> clock \<Rightarrow> database \<Rightarrow> database \<times> effect list" where
  "checkAndSendReminders b clk db =
     forEach
       (\<lambda>usr db'. forEach (checkSchedule b clk usr) (getSchedulesByUserId db' (u_id usr)) db')
       (getAllUsers db) db"

text \<open>
  \<^verbatim>\<open>getPendingLogsForDate\<close> copies each open record of the day and joins it with its
  schedule and user; of the joined fields the retry check uses the LINE user id.
\<close>

definition getPendingLogsForDate :: "database \<Rightarrow> day \<Rightarrow> (medlog \<times> ident) list" where
  "getPendingLogsForDate db d =
     map (\<lambda>log. (log, case find (\<lambda>u. u_id u = user_id log) (users db) of
                         Some usr \<Rightarrow> line_user_id usr
                       | None \<Rightarrow> []))
       (filter (\<lambda>log. date log = d \<and> (status log = PENDING \<or> status log = SNOOZED))
          (medicationLogs db))"

definition minutesDiff :: "clock \<Rightarrow> instant \<Rightarrow> int" where
  "minutesDiff clk lastReminded = (taiwanNow clk - lastReminded) div (1000 * 60)"

definition retryLog :: "bot \<Rightarrow> clock \<Rightarrow> medlog \<times> ident \<Rightarrow> database \<Rightarrow> database \<times> effect list" where
  "retryLog b clk row db =
     (case last_reminded_at (fst row) of
        None \<Rightarrow> (db, [])
      | Some lastReminded \<Rightarrow>
          (let log = fst row;
               r1 = (if minutesDiff clk lastReminded \<ge> 30 \<and> retry_count log < 3
                        \<and> status log = SNOOZED
                     then (case getScheduleById db (schedule_id log) of
                             None \<Rightarrow> (db, [])
                           | Some sched \<Rightarrow>
                               (case commitUpdate (l_id log) PENDING
                                       \<lparr>takenAt = None, retryCount = Some (retry_count log + 1),
                                        lastRemindedAt = Some (taiwanNow clk)\<rparr> db of
                                  (db1, e1) \<Rightarrow>
                                    (db1, e1 @ sendReminderMessage b (snd row)
                                       (FlexReminder (meal_type sched) (medicines sched)
                                          (s_id sched) (retry_count log + 1)
                                          (is_second_dose sched)))))
                     else (db, []));
               r2 = (if minutesDiff clk lastReminded \<ge> 90 \<and> retry_count log \<ge> 3
                        \<and> status log = PENDING
                     then commitUpdate (l_id log) MISSED
                            (noData\<lparr>lastRemindedAt := Some (taiwanNow clk)\<rparr>) (fst r1)
                     else (fst r1, []))
           in (fst r2, snd r1 @ snd r2)))"

definition checkRetryNeeded :: "bot \<Rightarrow> clock \<Rightarrow> database \<Rightarrow> database \<times> effect list" where
  "checkRetryNeeded b clk db =
     forEach (retryLog b clk) (getPendingLogsForDate db (taiwanDate clk)) db"

section \<open>Predicates on stores and on effect traces\<close>

text \<open>
  Identifiers come from \<^verbatim>\<open>uuidv4()\<close> and \<^verbatim>\<open>createUser\<close> finds before it creates, so a
  store built by the program has no two users, schedules or records with one id and no two
  users with one LINE id.
\<close>

definition distinctLogIds :: "database \<Rightarrow> bool" where
  "distinctLogIds db = distinct (map l_id (medicationLogs db))"


definition terminal :: "medlog \<Rightarrow> bool" where
  "terminal log \<longleftrightarrow> status log = TAKEN \<or> status log = MISSED"

fun isReminderFor :: "ident \<Rightarrow> effect \<Rightarrow> bool" where
  "isReminderFor sid (Push u (FlexReminder m ms sid' r d) ok) = (sid' = sid)"
| "isReminderFor sid (Push u TextRecorded ok) = False"
| "isReminderFor sid (Push u TextHerbalHint ok) = False"
| "isReminderFor sid (Push u (TextSnoozed n) ok) = False"
| "isReminderFor sid (Push u TextExceeded ok) = False"
| "isReminderFor sid (Saved l st) = False"

definition remindersFor :: "ident \<Rightarrow> effect list \<Rightarrow> nat" where
  "remindersFor sid tr = length (filter (isReminderFor sid) tr)"

fun isExceededTo :: "ident \<Rightarrow> effect \<Rightarrow> bool" where
  "isExceededTo uid (Push u TextExceeded ok) = (u = uid)"
| "isExceededTo uid (Push u (FlexReminder m ms sid r d) ok) = False"
| "isExceededTo uid (Push u TextRecorded ok) = False"
| "isExceededTo uid (Push u TextHerbalHint ok) = False"
| "isExceededTo uid (Push u (TextSnoozed n) ok) = False"
| "isExceededTo uid (Saved l st) = False"

definition exceededNoticesTo :: "ident \<Rightarrow> effect list \<Rightarrow> nat" where
  "exceededNoticesTo uid tr = length (filter (isExceededTo uid) tr)"

text \<open>
  What a committed update does to each record of the array when ids are unique, and the
  relation between the store before and after a scheduler run: same users and schedules,
  same records by position and key, finished records untouched, counters not lowered.
\<close>

definition overwrite :: "ident \<Rightarrow> status \<Rightarrow> additionalData \<Rightarrow> medlog \<Rightarrow> medlog" where
  "overwrite logId st ad l = (if l_id l = logId then applyUpdate st ad l else l)"







text \<open>
  What one evaluation of \<^verbatim>\<open>sendReminderForMealType\<close> does to the record it finds for a
  user: nothing when finished, \<^verbatim>\<open>MISSED\<close> from three reminders on, otherwise \<^verbatim>\<open>SNOOZED\<close>
  with the counter raised by one.
\<close>

definition nextLog :: "clock \<Rightarrow> medlog \<Rightarrow> medlog" where
  "nextLog clk log =
     (if terminal log then log
      else if retry_count log \<ge> 3
        then applyUpdate MISSED (noData\<lparr>lastRemindedAt := Some (nowUtc clk)\<rparr>) log
      else applyUpdate SNOOZED
             \<lparr>takenAt = None, retryCount = Some (retry_count log + 1),
              lastRemindedAt = Some (nowUtc clk)\<rparr> log)"



text \<open>
  What the minute tick leaves fixed when ids are unique: users, schedules, and the id,
  key and status of every record. And the test of the retry check on a copied record.
\<close>

definition sameStatuses :: "database \<Rightarrow> database \<Rightarrow> bool" where
  "sameStatuses db db' \<longleftrightarrow>
     users db' = users db \<and> schedules db' = schedules db \<and>
     map l_id (medicationLogs db') = map l_id (medicationLogs db) \<and>
     map (\<lambda>l. (schedule_id l, date l, status l)) (medicationLogs db')
       = map (\<lambda>l. (schedule_id l, date l, status l)) (medicationLogs db)"



text \<open>
  The stores the program can be in: it starts with the empty cache and every entry point
  that changes the cache is a step, with any arguments, clock readings and push outcomes.
  The entry points are the postback handler, the first contact by a text message, the
  setup command and the setup endpoint (which also creates the user), the daily
  initialisation, and the evaluations of both schedulers.
\<close>

inductive reachable :: "(nat \<Rightarrow> ident) \<Rightarrow> world \<Rightarrow> bool" for uuid :: "nat \<Rightarrow> ident" where
  by_start: "reachable uuid \<lparr>data = emptyData, uuidCalls = 0\<rparr>"
| by_postback: "reachable uuid w \<Longrightarrow> reachable uuid (fst (handleWebhookEvent uuid b clk ev w))"
| by_contact: "reachable uuid w \<Longrightarrow> reachable uuid (registerIfUnknown uuid clk lineUserId w)"
| by_setup: "reachable uuid w \<Longrightarrow> reachable uuid (setupDefaultSchedules uuid clk userId w)"
| by_register:
    "reachable uuid w \<Longrightarrow> reachable uuid (snd (createUser uuid clk lineUserId displayName w))"
| by_daily: "reachable uuid w \<Longrightarrow> reachable uuid (initDailySchedule uuid clk w)"
| by_reminder:
    "reachable uuid w \<Longrightarrow>
       reachable uuid (w\<lparr>data := fst (sendReminderForMealType b clk mealType (data w))\<rparr>)"
| by_tick:
    "reachable uuid w \<Longrightarrow> reachable uuid (w\<lparr>data := fst (checkAndSendReminders b clk (data w))\<rparr>)"
| by_retry:
    "reachable uuid w \<Longrightarrow> reachable uuid (w\<lparr>data := fst (checkRetryNeeded b clk (data w))\<rparr>)"

definition takenStamped :: "database \<Rightarrow> bool" where
  "takenStamped db \<longleftrightarrow> (\<forall>l \<in> set (medicationLogs db). status l = TAKEN \<longrightarrow> taken_at l \<noteq> None)"



definition present :: "database \<Rightarrow> ident \<Rightarrow> day \<Rightarrow> bool" where
  "present db sid d \<longleftrightarrow> getMedicationLogByScheduleAndDate db sid d \<noteq> None"



section \<open>Sample stores\<close>

text \<open>
  One registered user with the two breakfast schedules and their records for one day; the
  record of the first dose is given by its status, counter and two timestamps.
\<close>

definition sampleUuid :: "nat \<Rightarrow> ident" where
  "sampleUuid k =
     (if k = 0 then ''U1'' else if k = 1 then ''S1'' else if k = 2 then ''S2''
      else if k = 3 then ''S3'' else if k = 4 then ''S4'' else if k = 5 then ''L1''
      else if k = 6 then ''L2'' else if k = 7 then ''L3'' else if k = 8 then ''L4''
      else CHR ''N'' # replicate k (CHR ''x''))"

definition sampleClock :: "instant \<Rightarrow> string \<Rightarrow> clock" where
  "sampleClock t hhmm =
     \<lparr>nowUtc = t, utcDate = ''2024-05-01'', taiwanNow = t, taiwanDate = ''2024-05-01'',
      taiwanHHMM = hhmm\<rparr>"

definition sampleBot :: bot where
  "sampleBot userId msg = True"

definition failingBot :: bot where
  "failingBot userId msg = False"

definition sampleUser :: user where
  "sampleUser = \<lparr>u_id = ''U1'', line_user_id = ''line-A'', display_name = Some ''line-A'',
                  u_created_at = 0\<rparr>"

definition sampleWestern :: schedule where
  "sampleWestern =
     \<lparr>s_id = ''S1'', s_user_id = ''U1'', meal_type = mealBreakfastWestern,
      default_time = ''08:00'', medicines = [drugWestern], is_second_dose = False,
      linked_schedule_id = None, link_delay_minutes = 60, s_created_at = 0\<rparr>"

definition sampleHerbal :: schedule where
  "sampleHerbal =
     \<lparr>s_id = ''S2'', s_user_id = ''U1'', meal_type = mealBreakfastHerbal,
      default_time = ''09:00'', medicines = [drugHerbal], is_second_dose = True,
      linked_schedule_id = Some ''S1'', link_delay_minutes = 60, s_created_at = 0\<rparr>"

definition sampleLog ::
  "ident \<Rightarrow> ident \<Rightarrow> status \<Rightarrow> int \<Rightarrow> instant option \<Rightarrow> instant option \<Rightarrow> medlog" where
  "sampleLog logId sid st rc reminded taken =
     \<lparr>l_id = logId, schedule_id = sid, user_id = ''U1'', date = ''2024-05-01'', status = st,
      retry_count = rc, last_reminded_at = reminded, taken_at = taken, created_at = 0\<rparr>"

definition sampleStore :: "status \<Rightarrow> int \<Rightarrow> instant option \<Rightarrow> instant option \<Rightarrow> database" where
  "sampleStore st rc reminded taken =
     \<lparr>users = [sampleUser], schedules = [sampleWestern, sampleHerbal],
      medicationLogs = [sampleLog ''L1'' ''S1'' st rc reminded taken,
                        sampleLog ''L2'' ''S2'' PENDING 0 None None]\<rparr>"

definition sampleWorld :: "status \<Rightarrow> int \<Rightarrow> instant option \<Rightarrow> instant option \<Rightarrow> world" where
  "sampleWorld st rc reminded taken = \<lparr>data = sampleStore st rc reminded taken, uuidCalls = 9\<rparr>"

definition sampleEvent :: "action \<Rightarrow> ident \<Rightarrow> int \<Rightarrow> postbackEvent" where
  "sampleEvent act sid reported =
     \<lparr>sourceUserId = ''line-A'', action = act, scheduleId = sid, reportedRetryCount = reported\<rparr>"


text \<open>
  A user's first day from the empty cache: first contact at 0, the first dose acknowledged
  at 5, and then either snoozed at 9 or acknowledged again at 7.
\<close>

definition sampleContact :: world where
  "sampleContact =
     fst (handleWebhookEvent sampleUuid sampleBot (sampleClock 0 ''07:00'')
            (sampleEvent ActionOther ''none'' 0) \<lparr>data = emptyData, uuidCalls = 0\<rparr>)"

definition sampleTaken :: world where
  "sampleTaken =
     fst (handleWebhookEvent sampleUuid sampleBot (sampleClock 5 ''08:05'')
            (sampleEvent ActionTaken ''S1'' 0) sampleContact)"

definition sampleSnoozedAfterTaken :: world where
  "sampleSnoozedAfterTaken =
     fst (handleWebhookEvent sampleUuid sampleBot (sampleClock 9 ''08:09'')
            (sampleEvent ActionSnooze ''S1'' 0) sampleTaken)"

definition sampleTakenAgain :: world where
  "sampleTakenAgain =
     fst (handleWebhookEvent sampleUuid sampleBot (sampleClock 7 ''08:07'')
            (sampleEvent ActionTaken ''S1'' 0) sampleTaken)"


section \<open>Facts about the store\<close>

lemma findIndex_None: "findIndex P xs = None \<longleftrightarrow> (\<forall>x \<in> set xs. \<not> P x)"
  by (induction xs) auto

lemma findIndex_Some:
  "findIndex P xs = Some i \<Longrightarrow> i < length xs \<and> P (xs ! i) \<and> (\<forall>j < i. \<not> P (xs ! j))"
proof (induction xs arbitrary: i)
  case Nil
  then show ?case by simp
next
  case (Cons x xs)
  show ?case
  proof (cases "P x")
    case True
    with Cons.prems show ?thesis by simp
  next
    case False
    with Cons.prems obtain k where k: "findIndex P xs = Some k" "i = Suc k"
      by auto
    from Cons.IH [OF k(1)] have ih: "k < length xs" "P (xs ! k)" "\<forall>j < k. \<not> P (xs ! j)"
      by auto
    show ?thesis
      using ih False k(2) by (auto simp: less_Suc_eq_0_disj)
  qed
qed

lemma find_SomeD: "find P xs = Some x \<Longrightarrow> x \<in> set xs \<and> P x"
  by (induction xs) (auto split: if_splits)



lemma list_update_as_map:
  assumes "distinct (map f xs)" "i < length xs"
  shows "xs[i := g (xs ! i)] = map (\<lambda>x. if f x = f (xs ! i) then g x else x) xs"
proof (rule nth_equalityI)
  show "length (xs[i := g (xs ! i)]) = length (map (\<lambda>x. if f x = f (xs ! i) then g x else x) xs)"
    by simp
next
  fix j
  assume "j < length (xs[i := g (xs ! i)])"
  then have j: "j < length xs" by simp
  have "f (xs ! j) = f (xs ! i) \<longleftrightarrow> j = i"
    using assms j by (metis length_map nth_eq_iff_index_eq nth_map)
  then show "xs[i := g (xs ! i)] ! j = map (\<lambda>x. if f x = f (xs ! i) then g x else x) xs ! j"
    using j by (auto simp: nth_list_update)
qed

lemma applyUpdate_keys [simp]:
  "l_id (applyUpdate st ad log) = l_id log"
  "schedule_id (applyUpdate st ad log) = schedule_id log"
  "user_id (applyUpdate st ad log) = user_id log"
  "date (applyUpdate st ad log) = date log"
  "created_at (applyUpdate st ad log) = created_at log"
  "status (applyUpdate st ad log) = st"
  by (simp_all add: applyUpdate_def Let_def split: option.splits)

lemma commitUpdate_found:
  assumes "log \<in> set (medicationLogs db)" "distinctLogIds db"
  shows "commitUpdate (l_id log) st ad db =
           (db\<lparr>medicationLogs := map (overwrite (l_id log) st ad) (medicationLogs db)\<rparr>,
            [Saved (l_id log) st])"
proof -
  from assms(1) have "findIndex (\<lambda>l. l_id l = l_id log) (medicationLogs db) \<noteq> None"
    by (auto simp: findIndex_None)
  then obtain i where i: "findIndex (\<lambda>l. l_id l = l_id log) (medicationLogs db) = Some i"
    by auto
  from findIndex_Some [OF i]
  have b: "i < length (medicationLogs db)" "l_id (medicationLogs db ! i) = l_id log"
    by auto
  have "(medicationLogs db)[i := applyUpdate st ad (medicationLogs db ! i)] =
        map (\<lambda>x. if l_id x = l_id (medicationLogs db ! i) then applyUpdate st ad x else x)
          (medicationLogs db)"
    using assms(2) b(1) unfolding distinctLogIds_def by (rule list_update_as_map)
  then show ?thesis
    by (simp add: commitUpdate_def updateMedicationLogStatus_def i Let_def b(2)
        overwrite_def [abs_def])
qed

section \<open>The cron scheduler never lowers a counter or touches a finished record\<close>









section \<open>The two actions of the webhook handler\<close>




lemma l_id_overwrite [simp]: "l_id (overwrite i st ad l) = l_id l"
  by (simp add: overwrite_def)

lemma l_id_comp_overwrite [simp]: "l_id \<circ> overwrite i st ad = l_id"
  by (rule ext) simp







lemma handleWebhookEvent_data:
  "data (fst (handleWebhookEvent uuid b clk ev w)) =
     (case action ev of
        ActionTaken \<Rightarrow> fst (handleTaken b clk ev (data (registerIfUnknown uuid clk (sourceUserId ev) w)))
      | ActionSnooze \<Rightarrow> fst (handleSnooze b clk ev (data (registerIfUnknown uuid clk (sourceUserId ev) w)))
      | ActionOther \<Rightarrow> data (registerIfUnknown uuid clk (sourceUserId ev) w))"
  by (cases "action ev") (simp_all add: handleWebhookEvent_def Let_def split: prod.splits)

section \<open>The creating operations only append\<close>











section \<open>Unfolding sets for the sample stores\<close>

lemmas sample_defs = sampleStore_def sampleWorld_def sampleUser_def sampleWestern_def
  sampleHerbal_def sampleLog_def sampleClock_def sampleBot_def failingBot_def sampleEvent_def
  mealBreakfastWestern_def mealBreakfastHerbal_def drugWestern_def drugHerbal_def

lemmas store_defs = getUserByLineId_def getAllUsers_def getScheduleById_def
  getSchedulesByUserId_def getMedicationLogByScheduleAndDate_def commitUpdate_def
  updateMedicationLogStatus_def applyUpdate_def noData_def sendTextMessage_def
  sendReminderMessage_def distinctLogIds_def Let_def

lemmas handler_defs = handleWebhookEvent_def registerIfUnknown_def handleTaken_def
  handleSnooze_def

lemmas cron_defs = sendReminderForMealType_def remindUser_def

section \<open>Claims about the store\<close>

text \<open>
  C10. A \<^verbatim>\<open>logId\<close> that no stored record carries makes \<^verbatim>\<open>updateMedicationLogStatus\<close>
  return \<^verbatim>\<open>null\<close> and leave the whole store as it was; a \<^verbatim>\<open>logId\<close> that is present
  is answered with the updated record, which replaces the first record carrying that id,
  while every other position of the log array, the users and the schedules stay as they were.
\<close>

theorem updateMedicationLogStatus_frame:
  "((\<forall>l \<in> set (medicationLogs db). l_id l \<noteq> logId) \<longrightarrow>
      updateMedicationLogStatus logId st ad db = (None, db)) \<and>
   ((\<exists>l \<in> set (medicationLogs db). l_id l = logId) \<longrightarrow>
      (\<exists>i log'. i < length (medicationLogs db) \<and>
         l_id (medicationLogs db ! i) = logId \<and>
         log' = applyUpdate st ad (medicationLogs db ! i) \<and>
         fst (updateMedicationLogStatus logId st ad db) = Some log' \<and>
         medicationLogs (snd (updateMedicationLogStatus logId st ad db)) ! i = log' \<and>
         length (medicationLogs (snd (updateMedicationLogStatus logId st ad db)))
           = length (medicationLogs db) \<and>
         (\<forall>j < length (medicationLogs db). j \<noteq> i \<longrightarrow>
            medicationLogs (snd (updateMedicationLogStatus logId st ad db)) ! j
              = medicationLogs db ! j) \<and>
         users (snd (updateMedicationLogStatus logId st ad db)) = users db \<and>
         schedules (snd (updateMedicationLogStatus logId st ad db)) = schedules db))"
proof (intro conjI impI)
  assume "\<forall>l \<in> set (medicationLogs db). l_id l \<noteq> logId"
  then have "findIndex (\<lambda>l. l_id l = logId) (medicationLogs db) = None"
    by (simp add: findIndex_None)
  then show "updateMedicationLogStatus logId st ad db = (None, db)"
    by (simp add: updateMedicationLogStatus_def)
next
  assume "\<exists>l \<in> set (medicationLogs db). l_id l = logId"
  then have "findIndex (\<lambda>l. l_id l = logId) (medicationLogs db) \<noteq> None"
    by (simp add: findIndex_None)
  then obtain i where i: "findIndex (\<lambda>l. l_id l = logId) (medicationLogs db) = Some i"
    by auto
  from findIndex_Some [OF i]
  have b: "i < length (medicationLogs db)" "l_id (medicationLogs db ! i) = logId"
    by auto
  show "\<exists>i log'. i < length (medicationLogs db) \<and>
         l_id (medicationLogs db ! i) = logId \<and>
         log' = applyUpdate st ad (medicationLogs db ! i) \<and>
         fst (updateMedicationLogStatus logId st ad db) = Some log' \<and>
         medicationLogs (snd (updateMedicationLogStatus logId st ad db)) ! i = log' \<and>
         length (medicationLogs (snd (updateMedicationLogStatus logId st ad db)))
           = length (medicationLogs db) \<and>
         (\<forall>j < length (medicationLogs db). j \<noteq> i \<longrightarrow>
            medicationLogs (snd (updateMedicationLogStatus logId st ad db)) ! j
              = medicationLogs db ! j) \<and>
         users (snd (updateMedicationLogStatus logId st ad db)) = users db \<and>
         schedules (snd (updateMedicationLogStatus logId st ad db)) = schedules db"
    using b by (intro exI [of _ i]) (simp add: updateMedicationLogStatus_def i Let_def)
qed

text \<open>C10 on the sample store: an id that is absent and the id of the second record.\<close>

theorem updateMedicationLogStatus_frame_witness:
  "''L9'' \<notin> set (map l_id (medicationLogs (sampleStore PENDING 0 None None))) \<and>
   updateMedicationLogStatus ''L9'' MISSED noData (sampleStore PENDING 0 None None)
     = (None, sampleStore PENDING 0 None None) \<and>
   (\<exists>l \<in> set (medicationLogs (sampleStore PENDING 0 None None)). l_id l = ''L2'') \<and>
   fst (updateMedicationLogStatus ''L2'' MISSED noData (sampleStore PENDING 0 None None))
     = Some (sampleLog ''L2'' ''S2'' MISSED 0 None None)"
  using updateMedicationLogStatus_frame [where db = "sampleStore PENDING 0 None None"
      and logId = "''L9''" and st = MISSED and ad = noData]
    updateMedicationLogStatus_frame [where db = "sampleStore PENDING 0 None None"
      and logId = "''L2''" and st = MISSED and ad = noData]
  by (simp add: sample_defs store_defs)

section \<open>Finished records (C1)\<close>




section \<open>The retry counter over time (C3)\<close>




section \<open>Where the handler takes the counter from (C4)\<close>




section \<open>Order of the last transition (C9)\<close>


lemma commitUpdate_either:
  "snd (commitUpdate logId st ad db) = [] \<or> snd (commitUpdate logId st ad db) = [Saved logId st]"
  by (simp add: commitUpdate_def updateMedicationLogStatus_def Let_def split: option.splits)












section \<open>Three reminders, then one warning (C2)\<close>

lemma remindersFor_append [simp]:
  "remindersFor sid (xs @ ys) = remindersFor sid xs + remindersFor sid ys"
  by (simp add: remindersFor_def)

lemma exceededNoticesTo_append [simp]:
  "exceededNoticesTo uid (xs @ ys) = exceededNoticesTo uid xs + exceededNoticesTo uid ys"
  by (simp add: exceededNoticesTo_def)

lemma remindersFor_Nil [simp]: "remindersFor sid [] = 0"
  by (simp add: remindersFor_def)

lemma exceededNoticesTo_Nil [simp]: "exceededNoticesTo uid [] = 0"
  by (simp add: exceededNoticesTo_def)







lemma evaluations_Nil [simp]: "evaluations [] m db = (db, [])"
  by (simp add: evaluations_def)


lemma nextLog_terminal [simp]: "terminal log \<Longrightarrow> nextLog clk log = log"
  by (simp add: nextLog_def)









section \<open>The second dose and its first dose (C6)\<close>

text \<open>
  C6 fails for the cron scheduler: the second breakfast dose is linked to the first, the
  first dose's record for today is \<^verbatim>\<open>PENDING\<close>, and an evaluation for the second dose
  pushes its reminder.
\<close>

theorem second_dose_reminded_before_first:
  "linked_schedule_id sampleHerbal = Some ''S1'' \<and>
   map_option status (getMedicationLogByScheduleAndDate (sampleStore PENDING 0 None None)
      ''S1'' ''2024-05-01'') = Some PENDING \<and>
   snd (sendReminderForMealType sampleBot (sampleClock 0 ''09:01'') mealBreakfastHerbal
          (sampleStore PENDING 0 None None))
     = [Push ''line-A'' (FlexReminder mealBreakfastHerbal [drugHerbal] ''S2'' 0 True) True,
        Saved ''L2'' SNOOZED]"
  by (simp add: sample_defs store_defs cron_defs)

lemma sameStatuses_refl: "sameStatuses db db"
  by (simp add: sameStatuses_def)

lemma sameStatuses_trans: "sameStatuses a b \<Longrightarrow> sameStatuses b c \<Longrightarrow> sameStatuses a c"
  by (simp add: sameStatuses_def)

lemma sameStatuses_distinct: "sameStatuses db db' \<Longrightarrow> distinctLogIds db \<Longrightarrow> distinctLogIds db'"
  by (simp add: sameStatuses_def distinctLogIds_def)

lemma find_status_cong:
  "map (\<lambda>l. (schedule_id l, date l, status l)) xs = map (\<lambda>l. (schedule_id l, date l, status l)) ys
     \<Longrightarrow> map_option status (find (\<lambda>l. schedule_id l = sid \<and> date l = d) xs)
         = map_option status (find (\<lambda>l. schedule_id l = sid \<and> date l = d) ys)"
proof (induction xs arbitrary: ys)
  case Nil
  then show ?case by simp
next
  case (Cons x xs)
  then obtain y ys' where ys: "ys = y # ys'" by (cases ys) auto
  with Cons.prems have h: "schedule_id x = schedule_id y" "date x = date y" "status x = status y"
    and t: "map (\<lambda>l. (schedule_id l, date l, status l)) xs
            = map (\<lambda>l. (schedule_id l, date l, status l)) ys'"
    by simp_all
  from Cons.IH [OF t] h show ?case by (simp add: ys)
qed

lemma sameStatuses_lookup:
  "sameStatuses db db' \<Longrightarrow>
     map_option status (getMedicationLogByScheduleAndDate db' sid d)
       = map_option status (getMedicationLogByScheduleAndDate db sid d)"
  unfolding getMedicationLogByScheduleAndDate_def sameStatuses_def
  by (intro find_status_cong) simp

lemma firstDoseOutstanding_alt:
  "firstDoseOutstanding db today sched \<longleftrightarrow>
     is_second_dose sched \<and>
     (case linked_schedule_id sched of
        None \<Rightarrow> False
      | Some linked \<Rightarrow>
          linked \<noteq> [] \<and>
          map_option status (getMedicationLogByScheduleAndDate db linked today) \<noteq> Some TAKEN)"
  by (auto simp: firstDoseOutstanding_def split: option.splits)

lemma sameStatuses_firstDose:
  "sameStatuses db db' \<Longrightarrow>
     firstDoseOutstanding db' today sched = firstDoseOutstanding db today sched"
  by (cases "linked_schedule_id sched")
    (simp_all add: firstDoseOutstanding_alt sameStatuses_lookup [of db db'])

lemma sameStatuses_touch0:
  assumes d: "distinctLogIds db" and mem: "log \<in> set (medicationLogs db)"
  shows "sameStatuses db
           (db\<lparr>medicationLogs := map (overwrite (l_id log) (status log) ad) (medicationLogs db)\<rparr>)"
proof -
  have "\<And>l. l \<in> set (medicationLogs db) \<Longrightarrow>
          (schedule_id (overwrite (l_id log) (status log) ad l),
           date (overwrite (l_id log) (status log) ad l),
           status (overwrite (l_id log) (status log) ad l))
          = (schedule_id l, date l, status l)"
  proof -
    fix l assume l: "l \<in> set (medicationLogs db)"
    have "l_id l = l_id log \<Longrightarrow> l = log"
      using d mem l unfolding distinctLogIds_def by (meson distinct_map inj_onD)
    then show "(schedule_id (overwrite (l_id log) (status log) ad l),
           date (overwrite (l_id log) (status log) ad l),
           status (overwrite (l_id log) (status log) ad l))
          = (schedule_id l, date l, status l)"
      by (auto simp: overwrite_def)
  qed
  then show ?thesis
    by (simp add: sameStatuses_def overwrite_def comp_def)
qed

lemma sameStatuses_touch:
  "distinctLogIds db \<Longrightarrow> log \<in> set (medicationLogs db) \<Longrightarrow> st = status log \<Longrightarrow>
     sameStatuses db
       (db\<lparr>medicationLogs := map (overwrite (l_id log) st ad) (medicationLogs db)\<rparr>)"
  by (simp add: sameStatuses_touch0)

lemma checkSchedule_step:
  assumes d: "distinctLogIds db"
  shows "sameStatuses db (fst (checkSchedule b clk usr sched db)) \<and>
         ((s_id sched = sid \<longrightarrow> firstDoseOutstanding db (taiwanDate clk) sched) \<longrightarrow>
            remindersFor sid (snd (checkSchedule b clk usr sched db)) = 0)"
proof (cases "getMedicationLogByScheduleAndDate db (s_id sched) (taiwanDate clk)")
  case None
  then show ?thesis
    by (simp add: checkSchedule_def sameStatuses_refl remindersFor_def)
next
  case (Some log)
  then have mem: "log \<in> set (medicationLogs db)"
    by (auto simp: getMedicationLogByScheduleAndDate_def dest: find_SomeD)
  show ?thesis
    using Some
    by (simp add: checkSchedule_def sameStatuses_touch [OF d mem] sameStatuses_refl remindersFor_def
        commitUpdate_found [OF mem d] Let_def sendReminderMessage_def)
qed

lemma forEach_silent:
  assumes step: "\<And>x s. x \<in> set xs \<Longrightarrow> I s \<Longrightarrow>
                   I (fst (body x s)) \<and> remindersFor sid (snd (body x s)) = 0"
    and start: "I s"
  shows "I (fst (forEach body xs s)) \<and> remindersFor sid (snd (forEach body xs s)) = 0"
  using step start
proof (induction xs arbitrary: s)
  case Nil
  then show ?case by (simp add: remindersFor_def)
next
  case (Cons x xs)
  from Cons.prems(1) [of x s] Cons.prems(2)
  have one: "I (fst (body x s))" "remindersFor sid (snd (body x s)) = 0" by simp_all
  have "I (fst (forEach body xs (fst (body x s)))) \<and>
        remindersFor sid (snd (forEach body xs (fst (body x s)))) = 0"
    by (rule Cons.IH [OF _ one(1)]) (simp add: Cons.prems(1))
  then show ?case using one by (simp add: split_beta remindersFor_def)
qed

text \<open>
  C6 as it holds, for the minute tick \<^verbatim>\<open>checkAndSendReminders\<close> on a store with unique
  record ids: when every schedule carrying an id is a second dose whose linked schedule has
  no record for today or one that is not \<^verbatim>\<open>TAKEN\<close>, the tick sends no reminder for
  that id.
\<close>

theorem second_dose_waits_in_minute_tick:
  assumes d: "distinctLogIds db"
    and gate: "\<forall>s \<in> set (schedules db). s_id s = sid \<longrightarrow>
                 firstDoseOutstanding db (taiwanDate clk) s"
  shows "remindersFor sid (snd (checkAndSendReminders b clk db)) = 0"
proof -
  let ?I = "\<lambda>s. distinctLogIds s \<and> sameStatuses db s"
  have inner: "\<And>(usr :: user) x s. x \<in> set (schedules db) \<Longrightarrow> ?I s \<Longrightarrow>
      ?I (fst (checkSchedule b clk usr x s)) \<and>
      remindersFor sid (snd (checkSchedule b clk usr x s)) = 0"
  proof -
    fix usr :: user and x s
    assume x: "x \<in> set (schedules db)" and i: "?I s"
    note st = checkSchedule_step [of s b clk usr x sid]
    from i st have ss: "sameStatuses s (fst (checkSchedule b clk usr x s))" by simp
    have g: "s_id x = sid \<longrightarrow> firstDoseOutstanding s (taiwanDate clk) x"
      using gate x i sameStatuses_firstDose [of db s "taiwanDate clk" x] by simp
    show "?I (fst (checkSchedule b clk usr x s)) \<and>
      remindersFor sid (snd (checkSchedule b clk usr x s)) = 0"
      using i st ss g sameStatuses_distinct sameStatuses_trans by blast
  qed
  have outer: "\<And>(usr :: user) s. ?I s \<Longrightarrow>
      ?I (fst (forEach (checkSchedule b clk usr) (getSchedulesByUserId s (u_id usr)) s)) \<and>
      remindersFor sid
        (snd (forEach (checkSchedule b clk usr) (getSchedulesByUserId s (u_id usr)) s)) = 0"
  proof -
    fix usr :: user and s
    assume i: "?I s"
    then have sub: "set (getSchedulesByUserId s (u_id usr)) \<subseteq> set (schedules db)"
      by (auto simp: getSchedulesByUserId_def sameStatuses_def)
    show "?I (fst (forEach (checkSchedule b clk usr) (getSchedulesByUserId s (u_id usr)) s)) \<and>
      remindersFor sid
        (snd (forEach (checkSchedule b clk usr) (getSchedulesByUserId s (u_id usr)) s)) = 0"
      by (rule forEach_silent [where I = ?I, OF _ i]) (use sub inner in blast)
  qed
  have "?I (fst (checkAndSendReminders b clk db)) \<and>
        remindersFor sid (snd (checkAndSendReminders b clk db)) = 0"
    unfolding checkAndSendReminders_def
    by (rule forEach_silent [where I = ?I]) (use outer d sameStatuses_refl in auto)
  then show ?thesis by simp
qed

text \<open>
  C6 on the sample store at the second dose's time 09:00: no reminder while the first dose
  is \<^verbatim>\<open>PENDING\<close>, and one once it is \<^verbatim>\<open>TAKEN\<close>.
\<close>

theorem second_dose_waits_in_minute_tick_witness:
  "distinctLogIds (sampleStore PENDING 0 None None) \<and>
   firstDoseOutstanding (sampleStore PENDING 0 None None) ''2024-05-01'' sampleHerbal \<and>
   remindersFor ''S2'' (snd (checkAndSendReminders sampleBot (sampleClock 0 ''09:00'')
      (sampleStore PENDING 0 None None))) = 0 \<and>
   remindersFor ''S2'' (snd (checkAndSendReminders sampleBot (sampleClock 0 ''09:00'')
      (sampleStore TAKEN 0 None (Some 0)))) = 1"
  using second_dose_waits_in_minute_tick [where db = "sampleStore PENDING 0 None None"
      and sid = "''S2''" and clk = "sampleClock 0 ''09:00''" and b = sampleBot]
  by (simp add: sample_defs store_defs checkAndSendReminders_def checkSchedule_def
      firstDoseOutstanding_def remindersFor_def)

section \<open>Cooldown and eligibility (C7)\<close>



lemma commitUpdate_no_reminder_filter [simp]:
  "filter (isReminderFor sid) (snd (commitUpdate logId st ad db)) = []"
  by (simp add: commitUpdate_def updateMedicationLogStatus_def Let_def split: option.splits)










section \<open>The time of taking (C8)\<close>

lemma forEach_invariant:
  "(\<And>x s. I s \<Longrightarrow> I (fst (body x s))) \<Longrightarrow> I s \<Longrightarrow> I (fst (forEach body xs s))"
proof (induction xs arbitrary: s)
  case Nil
  then show ?case by simp
next
  case (Cons x xs)
  have "I (fst (body x s))" using Cons.prems by simp
  from Cons.IH [OF Cons.prems(1) this] show ?case by (simp add: split_beta)
qed

lemma applyUpdate_stamped:
  "(st = TAKEN \<longrightarrow> takenAt ad \<noteq> None) \<Longrightarrow>
     status (applyUpdate st ad log) = TAKEN \<Longrightarrow> taken_at (applyUpdate st ad log) \<noteq> None"
  by (auto simp: applyUpdate_def Let_def split: option.splits)

lemma commitUpdate_stamped:
  assumes "takenStamped db" and "st = TAKEN \<longrightarrow> takenAt ad \<noteq> None"
  shows "takenStamped (fst (commitUpdate logId st ad db))"
proof (cases "findIndex (\<lambda>l. l_id l = logId) (medicationLogs db)")
  case None
  then show ?thesis using assms(1)
    by (simp add: commitUpdate_def updateMedicationLogStatus_def)
next
  case (Some i)
  have "\<And>l. l \<in> set ((medicationLogs db)[i := applyUpdate st ad (medicationLogs db ! i)])
          \<Longrightarrow> status l = TAKEN \<Longrightarrow> taken_at l \<noteq> None"
  proof -
    fix l
    assume l: "l \<in> set ((medicationLogs db)[i := applyUpdate st ad (medicationLogs db ! i)])"
      and t: "status l = TAKEN"
    from l set_update_subset_insert
    have "l = applyUpdate st ad (medicationLogs db ! i) \<or> l \<in> set (medicationLogs db)"
      by fastforce
    then show "taken_at l \<noteq> None"
      using t assms applyUpdate_stamped [of st ad "medicationLogs db ! i"]
      by (auto simp: takenStamped_def)
  qed
  then show ?thesis
    by (simp add: commitUpdate_def updateMedicationLogStatus_def Some Let_def takenStamped_def)
qed

lemma handleTaken_stamped: "takenStamped db \<Longrightarrow> takenStamped (fst (handleTaken b clk ev db))"
  by (simp add: handleTaken_def commitUpdate_stamped split_beta split: option.splits)

lemma handleSnooze_stamped: "takenStamped db \<Longrightarrow> takenStamped (fst (handleSnooze b clk ev db))"
  by (simp add: handleSnooze_def commitUpdate_stamped split_beta Let_def split: option.splits)

lemma remindUser_stamped: "takenStamped db \<Longrightarrow> takenStamped (fst (remindUser b clk m usr db))"
  by (simp add: remindUser_def commitUpdate_stamped split_beta Let_def split: option.splits)

lemma checkSchedule_stamped:
  "takenStamped db \<Longrightarrow> takenStamped (fst (checkSchedule b clk usr sched db))"
  by (auto simp: checkSchedule_def commitUpdate_stamped split_beta Let_def split: option.splits)

lemma retryLog_stamped: "takenStamped db \<Longrightarrow> takenStamped (fst (retryLog b clk row db))"
  by (simp add: retryLog_def commitUpdate_stamped split_beta Let_def split: option.splits)

lemma createUser_stamped:
  "takenStamped (data w) \<Longrightarrow> takenStamped (data (snd (createUser uuid clk lid dn w)))"
  by (simp add: createUser_def takenStamped_def Let_def split: option.splits)

lemma createSchedule_stamped:
  "takenStamped (data w) \<Longrightarrow>
     takenStamped (data (snd (createSchedule uuid clk uid m t meds opts w)))"
  by (simp add: createSchedule_def takenStamped_def Let_def)

lemma createMedicationLog_stamped:
  "takenStamped (data w) \<Longrightarrow>
     takenStamped (data (snd (createMedicationLog uuid clk sid uid d w)))"
  by (auto simp: createMedicationLog_def takenStamped_def Let_def split: option.splits)

lemma setupDefaultSchedules_stamped:
  "takenStamped (data w) \<Longrightarrow> takenStamped (data (setupDefaultSchedules uuid clk uid w))"
  unfolding setupDefaultSchedules_def
  apply (simp only: split_beta)
  apply (intro createMedicationLog_stamped createSchedule_stamped)
  apply assumption
  done

lemma registerIfUnknown_stamped:
  "takenStamped (data w) \<Longrightarrow> takenStamped (data (registerIfUnknown uuid clk lid w))"
  by (simp add: registerIfUnknown_def split_beta setupDefaultSchedules_stamped
      createUser_stamped split: option.splits)

lemma initSchedule_stamped:
  "takenStamped (data w) \<Longrightarrow> takenStamped (data (fst (initSchedule uuid clk usr sched w)))"
  by (simp add: initSchedule_def createMedicationLog_stamped split: option.splits)

lemma initDailySchedule_stamped:
  "takenStamped (data w) \<Longrightarrow> takenStamped (data (initDailySchedule uuid clk w))"
  unfolding initDailySchedule_def
  by (intro forEach_invariant [where I = "\<lambda>w. takenStamped (data w)"] initSchedule_stamped)

lemma handleWebhookEvent_stamped:
  "takenStamped (data w) \<Longrightarrow> takenStamped (data (fst (handleWebhookEvent uuid b clk ev w)))"
  by (cases "action ev")
    (simp_all add: handleWebhookEvent_data handleTaken_stamped handleSnooze_stamped
      registerIfUnknown_stamped)

lemma reachable_stamped: "reachable uuid w \<Longrightarrow> takenStamped (data w)"
proof (induction rule: reachable.induct)
  case by_start
  then show ?case by (simp add: takenStamped_def emptyData_def)
next
  case (by_postback w b clk ev)
  then show ?case by (simp add: handleWebhookEvent_stamped)
next
  case (by_contact w clk lineUserId)
  then show ?case by (simp add: registerIfUnknown_stamped)
next
  case (by_setup w clk userId)
  then show ?case by (simp add: setupDefaultSchedules_stamped)
next
  case (by_register w clk lineUserId displayName)
  then show ?case by (simp add: createUser_stamped)
next
  case (by_daily w clk)
  then show ?case by (simp add: initDailySchedule_stamped)
next
  case (by_reminder w b clk mealType)
  then show ?case
    by (simp add: sendReminderForMealType_def forEach_invariant [where I = takenStamped]
        remindUser_stamped)
next
  case (by_tick w b clk)
  then show ?case
    by (simp add: checkAndSendReminders_def forEach_invariant [where I = takenStamped]
        checkSchedule_stamped)
next
  case (by_retry w b clk)
  then show ?case
    by (simp add: checkRetryNeeded_def forEach_invariant [where I = takenStamped]
        retryLog_stamped)
qed

lemma sampleContact_eval:
  "sampleContact =
     \<lparr>data = \<lparr>users = [sampleUser],
        schedules = [sampleWestern, sampleHerbal,
          \<lparr>s_id = ''S3'', s_user_id = ''U1'', meal_type = mealLunch, default_time = ''13:00'',
           medicines = [drugHerbal], is_second_dose = False, linked_schedule_id = None,
           link_delay_minutes = 60, s_created_at = 0\<rparr>,
          \<lparr>s_id = ''S4'', s_user_id = ''U1'', meal_type = mealDinner, default_time = ''19:00'',
           medicines = [drugHerbal], is_second_dose = False, linked_schedule_id = None,
           link_delay_minutes = 60, s_created_at = 0\<rparr>],
        medicationLogs = [sampleLog ''L1'' ''S1'' PENDING 0 None None,
          sampleLog ''L2'' ''S2'' PENDING 0 None None, sampleLog ''L3'' ''S3'' PENDING 0 None None,
          sampleLog ''L4'' ''S4'' PENDING 0 None None]\<rparr>,
      uuidCalls = 9\<rparr>"
  by (simp add: sampleContact_def handleWebhookEvent_def registerIfUnknown_def
      getUserByLineId_def emptyData_def createUser_def setupDefaultSchedules_def
      createSchedule_def createMedicationLog_def noOptions_def sampleUuid_def Let_def
      sampleEvent_def sampleClock_def sampleUser_def sampleWestern_def sampleHerbal_def
      sampleLog_def)

lemma sampleTaken_logs:
  "medicationLogs (data sampleTaken) =
     [sampleLog ''L1'' ''S1'' TAKEN 0 None (Some 5),
      sampleLog ''L2'' ''S2'' PENDING 0 None None, sampleLog ''L3'' ''S3'' PENDING 0 None None,
      sampleLog ''L4'' ''S4'' PENDING 0 None None]"
  by (simp add: sampleTaken_def sampleContact_eval sample_defs store_defs handler_defs)

lemma sampleSnoozedAfterTaken_logs:
  "medicationLogs (data sampleSnoozedAfterTaken) =
     [sampleLog ''L1'' ''S1'' SNOOZED 1 (Some 9) (Some 5),
      sampleLog ''L2'' ''S2'' PENDING 0 None None, sampleLog ''L3'' ''S3'' PENDING 0 None None,
      sampleLog ''L4'' ''S4'' PENDING 0 None None]"
  by (simp add: sampleSnoozedAfterTaken_def sampleTaken_def sampleContact_eval sample_defs
      store_defs handler_defs)

lemma sampleTakenAgain_logs:
  "medicationLogs (data sampleTakenAgain) =
     [sampleLog ''L1'' ''S1'' TAKEN 0 None (Some 7),
      sampleLog ''L2'' ''S2'' PENDING 0 None None, sampleLog ''L3'' ''S3'' PENDING 0 None None,
      sampleLog ''L4'' ''S4'' PENDING 0 None None]"
  by (simp add: sampleTakenAgain_def sampleTaken_def sampleContact_eval sample_defs
      store_defs handler_defs)

lemma sample_reachable:
  "reachable sampleUuid sampleTaken" "reachable sampleUuid sampleSnoozedAfterTaken"
  "reachable sampleUuid sampleTakenAgain"
  unfolding sampleTaken_def sampleSnoozedAfterTaken_def sampleTakenAgain_def sampleContact_def
  by (intro reachable.by_postback reachable.by_start)+

text \<open>
  C8 fails in both halves, on stores the program reaches from the empty cache. After first
  contact and an acknowledge at 5, a snooze at 9 makes the record \<^verbatim>\<open>SNOOZED\<close> and leaves
  \<^verbatim>\<open>taken_at\<close> at 5; and a second acknowledge at 7 writes \<^verbatim>\<open>taken_at\<close> again.
\<close>

theorem taken_stamp_outlives_status:
  "reachable sampleUuid sampleSnoozedAfterTaken \<and>
   map status (medicationLogs (data sampleSnoozedAfterTaken))
     = [SNOOZED, PENDING, PENDING, PENDING] \<and>
   map taken_at (medicationLogs (data sampleSnoozedAfterTaken)) = [Some 5, None, None, None] \<and>
   reachable sampleUuid sampleTaken \<and>
   map taken_at (medicationLogs (data sampleTaken)) = [Some 5, None, None, None] \<and>
   reachable sampleUuid sampleTakenAgain \<and>
   map taken_at (medicationLogs (data sampleTakenAgain)) = [Some 7, None, None, None]"
  by (simp add: sample_reachable sampleSnoozedAfterTaken_logs sampleTaken_logs
      sampleTakenAgain_logs sampleLog_def)

text \<open>
  C8 as it holds: in every store the program can reach from the empty cache, a record whose
  status is \<^verbatim>\<open>TAKEN\<close> has its \<^verbatim>\<open>taken_at\<close> set.
\<close>

theorem taken_records_are_stamped:
  "reachable uuid w \<Longrightarrow> l \<in> set (medicationLogs (data w)) \<Longrightarrow> status l = TAKEN
     \<Longrightarrow> taken_at l \<noteq> None"
  using reachable_stamped [of uuid w] by (simp add: takenStamped_def)

text \<open>C8 on the sample day, after first contact and the acknowledge at 5.\<close>

theorem taken_records_are_stamped_witness:
  "reachable sampleUuid sampleTaken \<and>
   status (hd (medicationLogs (data sampleTaken))) = TAKEN \<and>
   taken_at (hd (medicationLogs (data sampleTaken))) \<noteq> None"
  using taken_records_are_stamped [where uuid = sampleUuid and w = sampleTaken
      and l = "hd (medicationLogs (data sampleTaken))"]
  by (simp add: sample_reachable sampleTaken_logs sampleLog_def)

section \<open>Initialising a day twice (C5)\<close>








lemma createMedicationLog_idle:
  "present (data w) sid d \<Longrightarrow> snd (createMedicationLog uuid clk sid uid d w) = w"
  by (auto simp: createMedicationLog_def present_def getMedicationLogByScheduleAndDate_def)






























end
